theory Spec2Isabelle
  imports Main "HOL-Library.Word" "HOL-Library.Sublist"
begin

section \<open>Values of the runtime\<close>

text \<open>
  A JavaScript string is a sequence of UTF-16 code units. Error messages, retry keys and
  the messages of the storage engine are ASCII and are written as HOL strings.
\<close>

type_synonym jsstring = "16 word list"

definition utf16 :: "string \<Rightarrow> jsstring" where
  "utf16 cs = map (\<lambda>c. of_nat (of_char c)) cs"

text \<open>
  A value of type \<open>number\<close>. The source only ever compares a number after
  \<open>Number.isInteger\<close> has accepted it (the checks are joined by a short-circuit
  \<open>||\<close>), so a number is either an integer or a value that \<open>Number.isInteger\<close>
  rejects (a fraction, NaN, an infinity); the latter carries the text that a template
  literal prints for it.
\<close>

datatype number = Integer int | NonInteger string

fun digits :: "nat \<Rightarrow> string" where
  "digits n = (if n < 10 then [''0123456789'' ! n] else digits (n div 10) @ [''0123456789'' ! (n mod 10)])"

declare digits.simps [simp del]

text \<open>\<open>`${n}`\<close>: decimal notation (what the runtime prints for integers below \<open>10^21\<close>).\<close>

fun toString :: "number \<Rightarrow> string" where
  "toString (Integer i) = (if i < 0 then CHR ''-'' # digits (nat (- i)) else digits (nat i))"
| "toString (NonInteger s) = s"

datatype error = Error string | TypeError string

fun message :: "error \<Rightarrow> string" where
  "message (Error m) = m"
| "message (TypeError m) = m"

text \<open>\<open>String.prototype.includes\<close>.\<close>

fun includes_str :: "string \<Rightarrow> string \<Rightarrow> bool" where
  "includes_str [] p = (p = [])"
| "includes_str (c # cs) p = (prefix p (c # cs) \<or> includes_str cs p)"

text \<open>The code units that \<open>String.prototype.trim\<close> strips: white space and line terminators.\<close>

definition isWhiteSpace :: "16 word \<Rightarrow> bool" where
  "isWhiteSpace u \<longleftrightarrow>
     u = 0x0009 \<or> u = 0x000A \<or> u = 0x000B \<or> u = 0x000C \<or> u = 0x000D \<or> u = 0x0020 \<or>
     u = 0x00A0 \<or> u = 0x1680 \<or> (0x2000 \<le> u \<and> u \<le> 0x200A) \<or> u = 0x2028 \<or> u = 0x2029 \<or>
     u = 0x202F \<or> u = 0x205F \<or> u = 0x3000 \<or> u = 0xFEFF"

definition trim :: "jsstring \<Rightarrow> jsstring" where
  "trim s = rev (dropWhile isWhiteSpace (rev (dropWhile isWhiteSpace s)))"

text \<open>
  \<open>Buffer.byteLength(s, 'utf8')\<close>: a surrogate pair encodes one code point in four bytes,
  a lone surrogate is replaced by U+FFFD (three bytes).
\<close>

definition unitLength :: "16 word \<Rightarrow> nat" where
  "unitLength u = (if u < 0x80 then 1 else if u < 0x800 then 2 else 3)"

definition isHighSurrogate :: "16 word \<Rightarrow> bool" where
  "isHighSurrogate u \<longleftrightarrow> 0xD800 \<le> u \<and> u \<le> 0xDBFF"

definition isLowSurrogate :: "16 word \<Rightarrow> bool" where
  "isLowSurrogate u \<longleftrightarrow> 0xDC00 \<le> u \<and> u \<le> 0xDFFF"

fun byteLength :: "jsstring \<Rightarrow> nat" where
  "byteLength [] = 0"
| "byteLength [u] = unitLength u"
| "byteLength (u # v # us) =
     (if isHighSurrogate u \<and> isLowSurrogate v then 4 + byteLength us
      else unitLength u + byteLength (v # us))"

text \<open>
  A string bound to a statement is stored in a TEXT column, that is as UTF-8, and read
  back from there. An unpaired surrogate has no UTF-8 encoding and is stored as U+FFFD;
  every other code unit comes back as it was given.
\<close>

fun toWellFormed :: "jsstring \<Rightarrow> jsstring" where
  "toWellFormed [] = []"
| "toWellFormed [u] = (if isHighSurrogate u \<or> isLowSurrogate u then [0xFFFD] else [u])"
| "toWellFormed (u # v # us) =
     (if isHighSurrogate u \<and> isLowSurrogate v then u # v # toWellFormed us
      else if isHighSurrogate u \<or> isLowSurrogate u then 0xFFFD # toWellFormed (v # us)
      else u # toWellFormed (v # us))"

text \<open>A string without unpaired surrogate.\<close>

fun isWellFormed :: "jsstring \<Rightarrow> bool" where
  "isWellFormed [] = True"
| "isWellFormed [u] = (\<not> isHighSurrogate u \<and> \<not> isLowSurrogate u)"
| "isWellFormed (u # v # us) =
     (if isHighSurrogate u \<and> isLowSurrogate v then isWellFormed us
      else \<not> isHighSurrogate u \<and> \<not> isLowSurrogate u \<and> isWellFormed (v # us))"

section \<open>Constants of \<open>sqlite.ts\<close>\<close>

definition MAX_CONTENT_LENGTH :: nat where
  "MAX_CONTENT_LENGTH = 1000000"

definition MAX_RETRIES :: nat where
  "MAX_RETRIES = 3"

definition MAX_SAFE_INTEGER :: int where
  "MAX_SAFE_INTEGER = 9007199254740991"

section \<open>The manager and its storage\<close>

text \<open>
  A row of table \<open>messages\<close> as the SELECT statements of the source return it
  (\<open>rowid as id, message_id, content, created_at, updated_at\<close>). The columns hold the
  values that \<open>stmt.run\<close> was given.
\<close>

record DataMessages =
  rowid :: nat
  message_id :: number
  content :: jsstring
  created_at :: number
  updated_at :: number

text \<open>
  The state a \<open>MessageManager\<close> works on: the table behind its database handle, its
  \<open>retryCount\<close> map, and the two things the environment decides: the reading of
  \<open>Date.now()\<close>, and for each coming access to the storage engine whether the engine
  throws (\<open>Some m\<close>: an error with message \<open>m\<close>, the statement or transaction has no
  effect) or runs (\<open>None\<close>; an exhausted list means that every further access runs).
\<close>

record manager =
  rows :: "DataMessages list"
  retryCount :: "string \<rightharpoonup> nat"
  faults :: "string option list"
  now :: int

text \<open>
  An asynchronous operation: run on a state, it settles with an error (\<open>Inl\<close>, a rejected
  promise) or a value (\<open>Inr\<close>) and a new state, or never settles (\<open>None\<close>).
\<close>

type_synonym 'a operation = "manager \<Rightarrow> ((error + 'a) \<times> manager) option"

text \<open>One access to the storage engine: the next entry of \<open>faults\<close> decides.\<close>

definition access :: "manager \<Rightarrow> error option \<times> manager" where
  "access s = (case faults s of
       [] \<Rightarrow> (None, s)
     | f # fs \<Rightarrow> (map_option Error f, s\<lparr>faults := fs\<rparr>))"

section \<open>Validation\<close>

fun validateMessageId :: "number \<Rightarrow> error + unit" where
  "validateMessageId (NonInteger _) =
     Inl (Error ''Invalid message ID: must be a positive integer within safe range'')"
| "validateMessageId (Integer i) =
     (if i \<le> 0 \<or> i > MAX_SAFE_INTEGER
      then Inl (Error ''Invalid message ID: must be a positive integer within safe range'')
      else Inr ())"

fun isPositiveInteger :: "number \<Rightarrow> bool" where
  "isPositiveInteger (NonInteger _) = False"
| "isPositiveInteger (Integer i) = (\<not> i \<le> 0)"

fun number_less :: "number \<Rightarrow> number \<Rightarrow> bool" where
  "number_less (Integer a) (Integer b) = (a < b)"
| "number_less _ _ = False"

definition validateTimestamps :: "number \<Rightarrow> number \<Rightarrow> error + unit" where
  "validateTimestamps createdAt updatedAt =
     (if \<not> isPositiveInteger createdAt
      then Inl (Error ''Invalid created_at timestamp: must be a positive integer'')
      else if \<not> isPositiveInteger updatedAt
      then Inl (Error ''Invalid updated_at timestamp: must be a positive integer'')
      else if number_less updatedAt createdAt
      then Inl (Error ''updated_at timestamp cannot be earlier than created_at timestamp'')
      else Inr ())"

text \<open>
  The argument has type \<open>string\<close>, so the \<open>typeof content !== 'string'\<close> branch of the
  source is not taken.
\<close>

definition validateContent :: "jsstring \<Rightarrow> error + unit" where
  "validateContent content' =
     (let trimmedContent = trim content' in
      if length trimmedContent = 0
      then Inl (Error ''Content cannot be empty'')
      else if byteLength content' > MAX_CONTENT_LENGTH
      then Inl (Error (''Content exceeds maximum length limit of '' @ digits MAX_CONTENT_LENGTH @ '' bytes''))
      else Inr ())"

section \<open>The retry wrapper\<close>

definition isRetryableError :: "error \<Rightarrow> bool" where
  "isRetryableError err \<longleftrightarrow>
     includes_str (message err) ''database is locked'' \<or>
     includes_str (message err) ''busy'' \<or>
     includes_str (message err) ''no response''"

text \<open>
  \<open>retry\<close> calls itself after a retryable failure; the delay between the attempts has no
  effect on the state. A successful attempt returns at once: the \<open>catch\<close> block, which
  alone touches \<open>retryCount\<close>, is not entered.
\<close>

partial_function (option) retry :: "'a operation \<Rightarrow> string \<Rightarrow> 'a operation" where
  "retry operation key s =
     (case operation s of
        None \<Rightarrow> None
      | Some (Inr v, s1) \<Rightarrow> Some (Inr v, s1)
      | Some (Inl err, s1) \<Rightarrow>
          (let currentRetries = (case retryCount s1 key of None \<Rightarrow> 0 | Some n \<Rightarrow> n) in
           if currentRetries < MAX_RETRIES \<and> isRetryableError err
           then retry operation key (s1\<lparr>retryCount := (retryCount s1)(key \<mapsto> currentRetries + 1)\<rparr>)
           else Some (Inl err, s1\<lparr>retryCount := (retryCount s1)(key := None)\<rparr>)))"

declare retry.simps [code]

section \<open>The statements run against table \<open>messages\<close>\<close>

text \<open>
  Each statement is a function on the table. The schema script is not part of the
  sources; the table is taken as the statements use it: rows with the four columns and
  the row identifier that the engine assigns on insertion (one above the largest in use).
  The numbers are stored as bound; the content is stored as text (\<open>toWellFormed\<close>).
\<close>

definition select_by_message_id :: "number \<Rightarrow> DataMessages list \<Rightarrow> DataMessages option" where
  "select_by_message_id messageId tbl = find (\<lambda>r. message_id r = messageId) tbl"

definition delete_by_message_id :: "number \<Rightarrow> DataMessages list \<Rightarrow> nat \<times> DataMessages list" where
  "delete_by_message_id messageId tbl =
     (length (filter (\<lambda>r. message_id r = messageId) tbl),
      filter (\<lambda>r. message_id r \<noteq> messageId) tbl)"

definition next_rowid :: "DataMessages list \<Rightarrow> nat" where
  "next_rowid tbl = Suc (fold max (map rowid tbl) 0)"

definition insert_row ::
  "number \<Rightarrow> jsstring \<Rightarrow> number \<Rightarrow> number \<Rightarrow> DataMessages list \<Rightarrow> unit \<times> DataMessages list" where
  "insert_row messageId content' createdTimestamp updatedTimestamp tbl =
     ((), tbl @ [\<lparr>rowid = next_rowid tbl, message_id = messageId,
                  content = toWellFormed content',
                  created_at = createdTimestamp, updated_at = updatedTimestamp\<rparr>])"

definition update_by_message_id ::
  "jsstring \<Rightarrow> number \<Rightarrow> number \<Rightarrow> DataMessages list \<Rightarrow> nat \<times> DataMessages list" where
  "update_by_message_id content' now' messageId tbl =
     (length (filter (\<lambda>r. message_id r = messageId) tbl),
      map (\<lambda>r. if message_id r = messageId
                then r\<lparr>content := toWellFormed content', updated_at := now'\<rparr> else r) tbl)"

text \<open>
  Running a statement (or a transaction around one) is one access to the engine: it
  throws and leaves the table as it was, or it runs.
\<close>

definition run :: "(DataMessages list \<Rightarrow> 'a \<times> DataMessages list) \<Rightarrow> manager \<Rightarrow> (error + 'a) \<times> manager" where
  "run stmt s =
     (case access s of
        (Some err, s1) \<Rightarrow> (Inl err, s1)
      | (None, s1) \<Rightarrow> (case stmt (rows s1) of (v, tbl) \<Rightarrow> (Inr v, s1\<lparr>rows := tbl\<rparr>)))"

text \<open>A validation call inside the body of an operation: it throws or the body goes on.\<close>

definition check :: "error + unit \<Rightarrow> 'a operation \<Rightarrow> 'a operation" where
  "check v rest s = (case v of Inl err \<Rightarrow> Some (Inl err, s) | Inr _ \<Rightarrow> rest s)"

section \<open>The operations of \<open>MessageManager\<close>\<close>

definition messageExists :: "number \<Rightarrow> bool operation" where
  "messageExists messageId =
     retry
       (check (validateMessageId messageId)
          (\<lambda>s. case run (\<lambda>tbl. (select_by_message_id messageId tbl, tbl)) s of
                  (Inl err, s1) \<Rightarrow> Some (Inl err, s1)
                | (Inr found, s1) \<Rightarrow> Some (Inr (found \<noteq> None), s1)))
       (''messageExists_'' @ toString messageId)"

definition deleteMessage :: "number \<Rightarrow> unit operation" where
  "deleteMessage messageId =
     retry
       (check (validateMessageId messageId)
          (\<lambda>s. case run (delete_by_message_id messageId) s of
                  (Inl err, s1) \<Rightarrow> Some (Inl err, s1)
                | (Inr changes, s1) \<Rightarrow>
                    if changes = 0 then Some (Inl (Error ''Message not found''), s1)
                    else Some (Inr (), s1)))
       (''deleteMessage_'' @ toString messageId)"

definition getMessage :: "number \<Rightarrow> DataMessages option operation" where
  "getMessage messageId =
     retry
       (check (validateMessageId messageId)
          (\<lambda>s. Some (run (\<lambda>tbl. (select_by_message_id messageId tbl, tbl)) s)))
       (''getMessage_'' @ toString messageId)"

definition getMessages :: "DataMessages list operation" where
  "getMessages = retry (\<lambda>s. Some (run (\<lambda>tbl. (tbl, tbl)) s)) ''getMessages''"

definition insertMessage :: "number \<Rightarrow> jsstring \<Rightarrow> number \<Rightarrow> number \<Rightarrow> unit operation" where
  "insertMessage messageId content' createdTimestamp updatedTimestamp =
     retry
       (check (validateMessageId messageId)
       (check (validateContent content')
       (check (validateTimestamps createdTimestamp updatedTimestamp)
          (\<lambda>s. case messageExists messageId s of
                  None \<Rightarrow> None
                | Some (Inl err, s1) \<Rightarrow> Some (Inl err, s1)
                | Some (Inr exists, s1) \<Rightarrow>
                    if exists
                    then Some (Inl (Error (''Message with ID '' @ toString messageId @ '' already exists'')), s1)
                    else Some (run (insert_row messageId content' createdTimestamp updatedTimestamp) s1)))))
       (''insertMessage_'' @ toString messageId)"

definition updateMessage :: "number \<Rightarrow> jsstring \<Rightarrow> unit operation" where
  "updateMessage messageId content' =
     retry
       (check (validateMessageId messageId)
       (check (validateContent content')
          (\<lambda>s. let now' = Integer (now s) in
                case run (update_by_message_id content' now' messageId) s of
                  (Inl err, s1) \<Rightarrow> Some (Inl err, s1)
                | (Inr changes, s1) \<Rightarrow>
                    if changes = 0
                    then Some (Inl (Error (''Message with ID '' @ toString messageId @ '' not found'')), s1)
                    else Some (Inr (), s1))))
       (''updateMessage_'' @ toString messageId)"

definition getMessageCount :: "nat operation" where
  "getMessageCount = retry (\<lambda>s. Some (run (\<lambda>tbl. (length tbl, tbl)) s)) ''getMessageCount''"

text \<open>The value of \<open>this.retryCount.get(key) || 0\<close>.\<close>

definition attempts :: "manager \<Rightarrow> string \<Rightarrow> nat" where
  "attempts s key = (case retryCount s key of None \<Rightarrow> 0 | Some n \<Rightarrow> n)"

text \<open>
  The state in which \<open>retry\<close> makes its next attempt after \<open>n\<close> attempts in a row have
  failed with a retryable error and have been retried (\<open>None\<close> when they have not).
\<close>

fun retried :: "nat \<Rightarrow> 'a operation \<Rightarrow> string \<Rightarrow> manager \<Rightarrow> manager option" where
  "retried 0 operation key s = Some s"
| "retried (Suc n) operation key s =
     (case operation s of
        Some (Inl err, s1) \<Rightarrow>
          if attempts s1 key < MAX_RETRIES \<and> isRetryableError err
          then retried n operation key
                 (s1\<lparr>retryCount := (retryCount s1)(key \<mapsto> attempts s1 key + 1)\<rparr>)
          else None
      | _ \<Rightarrow> None)"

text \<open>What an operation that retries under \<open>key\<close> and runs a query leaves as it was.\<close>

definition frame :: "string \<Rightarrow> manager \<Rightarrow> manager \<Rightarrow> bool" where
  "frame key s s' \<longleftrightarrow> rows s' = rows s \<and> now s' = now s \<and>
     (\<forall>k. k \<noteq> key \<longrightarrow> retryCount s' k = retryCount s k)"

text \<open>Every stored row passes the check that \<open>insertMessage\<close> makes on its timestamps.\<close>

definition timestamps_valid :: "DataMessages list \<Rightarrow> bool" where
  "timestamps_valid tbl \<longleftrightarrow>
     list_all (\<lambda>r. validateTimestamps (created_at r) (updated_at r) = Inr ()) tbl"

section \<open>The retry wrapper, attempt by attempt\<close>

lemma retry_success:
  "operation s = Some (Inr v, s1) \<Longrightarrow> retry operation key s = Some (Inr v, s1)"
  by (subst retry.simps) simp

lemma retry_fatal:
  "operation s = Some (Inl err, s1) \<Longrightarrow> \<not> isRetryableError err \<Longrightarrow>
   retry operation key s = Some (Inl err, s1\<lparr>retryCount := (retryCount s1)(key := None)\<rparr>)"
  by (subst retry.simps) simp

lemma retry_exhausted:
  "operation s = Some (Inl err, s1) \<Longrightarrow> \<not> attempts s1 key < MAX_RETRIES \<Longrightarrow>
   retry operation key s = Some (Inl err, s1\<lparr>retryCount := (retryCount s1)(key := None)\<rparr>)"
  by (subst retry.simps) (simp add: attempts_def)

lemma retry_again:
  "operation s = Some (Inl err, s1) \<Longrightarrow> isRetryableError err \<Longrightarrow> attempts s1 key < MAX_RETRIES \<Longrightarrow>
   retry operation key s =
   retry operation key (s1\<lparr>retryCount := (retryCount s1)(key \<mapsto> attempts s1 key + 1)\<rparr>)"
  by (subst retry.simps) (simp add: attempts_def)

lemma retry_retried:
  "retried n operation key s = Some s' \<Longrightarrow> retry operation key s = retry operation key s'"
proof (induction n arbitrary: s)
  case 0
  then show ?case by simp
next
  case (Suc n)
  from Suc.prems obtain err s1 where
    op: "operation s = Some (Inl err, s1)" and
    again: "attempts s1 key < MAX_RETRIES \<and> isRetryableError err" and
    rest: "retried n operation key
             (s1\<lparr>retryCount := (retryCount s1)(key \<mapsto> attempts s1 key + 1)\<rparr>) = Some s'"
    by (auto split: option.splits sum.splits if_splits)
  from op again have "retry operation key s =
      retry operation key (s1\<lparr>retryCount := (retryCount s1)(key \<mapsto> attempts s1 key + 1)\<rparr>)"
    by (simp add: retry_again)
  with Suc.IH [OF rest] show ?case by simp
qed

lemma retry_rule:
  assumes step: "\<And>s. I s \<Longrightarrow> \<exists>r s1. operation s = Some (r, s1) \<and> retryCount s1 key = retryCount s key \<and>
                    (case r of Inl e \<Rightarrow> I s1 \<and> E e | Inr v \<Rightarrow> Q v s1)"
    and stable: "\<And>s c. I s \<Longrightarrow> I (s\<lparr>retryCount := (retryCount s)(key := c)\<rparr>)"
    and init: "I s"
  shows "\<exists>r s'. retry operation key s = Some (r, s') \<and>
           (case r of Inl e \<Rightarrow> I s' \<and> E e | Inr v \<Rightarrow> Q v s')"
  using init
proof (induction "MAX_RETRIES - attempts s key" arbitrary: s rule: less_induct)
  case less
  from step [OF less.prems] obtain r s1 where
    op: "operation s = Some (r, s1)" and
    cnt: "retryCount s1 key = retryCount s key" and
    post: "case r of Inl e \<Rightarrow> I s1 \<and> E e | Inr v \<Rightarrow> Q v s1"
    by blast
  show ?case
  proof (cases r)
    case (Inr v)
    with op post show ?thesis by (simp add: retry_success)
  next
    case (Inl e)
    with post have I1: "I s1" and Ee: "E e" by simp_all
    show ?thesis
    proof (cases "attempts s1 key < MAX_RETRIES \<and> isRetryableError e")
      case False
      then have "retry operation key s = Some (Inl e, s1\<lparr>retryCount := (retryCount s1)(key := None)\<rparr>)"
        using op Inl retry_fatal retry_exhausted by blast
      with stable [OF I1] Ee show ?thesis by simp
    next
      case True
      let ?s2 = "s1\<lparr>retryCount := (retryCount s1)(key \<mapsto> attempts s1 key + 1)\<rparr>"
      have eq: "retry operation key s = retry operation key ?s2"
        using op Inl True by (simp add: retry_again)
      have "attempts ?s2 key = attempts s key + 1"
        using cnt by (simp add: attempts_def)
      moreover have "attempts s key < MAX_RETRIES"
        using True cnt by (simp add: attempts_def)
      ultimately have "MAX_RETRIES - attempts ?s2 key < MAX_RETRIES - attempts s key"
        by simp
      from less.hyps [OF this stable [OF I1]] eq show ?thesis by simp
    qed
  qed
qed

text \<open>Starting from a key without counter: three retries, four attempts.\<close>

lemma retry_third_attempt_succeeds:
  assumes "operation s = Some (Inl e1, s1)" "isRetryableError e1" "attempts s1 key = 0"
    and "operation (s1\<lparr>retryCount := (retryCount s1)(key \<mapsto> 1)\<rparr>) = Some (Inl e2, s2)"
      "isRetryableError e2" "attempts s2 key = 1"
    and "operation (s2\<lparr>retryCount := (retryCount s2)(key \<mapsto> 2)\<rparr>) = Some (Inr v, s3)"
  shows "retry operation key s = Some (Inr v, s3)"
proof -
  have "retry operation key s = retry operation key (s1\<lparr>retryCount := (retryCount s1)(key \<mapsto> 1)\<rparr>)"
    using retry_again [of operation s e1 s1 key] assms(1,2,3) by (simp add: MAX_RETRIES_def numeral_2_eq_2 numeral_3_eq_3)
  also have "\<dots> = retry operation key (s2\<lparr>retryCount := (retryCount s2)(key \<mapsto> 2)\<rparr>)"
    using retry_again [of operation _ e2 s2 key] assms(4,5,6) by (simp add: MAX_RETRIES_def numeral_2_eq_2 numeral_3_eq_3)
  also have "\<dots> = Some (Inr v, s3)"
    using assms(7) by (rule retry_success)
  finally show ?thesis .
qed

lemma retry_fourth_failure_propagates:
  assumes "operation s = Some (Inl e1, s1)" "isRetryableError e1" "attempts s1 key = 0"
    and "operation (s1\<lparr>retryCount := (retryCount s1)(key \<mapsto> 1)\<rparr>) = Some (Inl e2, s2)"
      "isRetryableError e2" "attempts s2 key = 1"
    and "operation (s2\<lparr>retryCount := (retryCount s2)(key \<mapsto> 2)\<rparr>) = Some (Inl e3, s3)"
      "isRetryableError e3" "attempts s3 key = 2"
    and "operation (s3\<lparr>retryCount := (retryCount s3)(key \<mapsto> 3)\<rparr>) = Some (Inl e4, s4)"
      "attempts s4 key = 3"
  shows "retry operation key s = Some (Inl e4, s4\<lparr>retryCount := (retryCount s4)(key := None)\<rparr>)"
proof -
  have "retry operation key s = retry operation key (s1\<lparr>retryCount := (retryCount s1)(key \<mapsto> 1)\<rparr>)"
    using retry_again [of operation s e1 s1 key] assms(1,2,3) by (simp add: MAX_RETRIES_def numeral_2_eq_2 numeral_3_eq_3)
  also have "\<dots> = retry operation key (s2\<lparr>retryCount := (retryCount s2)(key \<mapsto> 2)\<rparr>)"
    using retry_again [of operation _ e2 s2 key] assms(4,5,6) by (simp add: MAX_RETRIES_def numeral_2_eq_2 numeral_3_eq_3)
  also have "\<dots> = retry operation key (s3\<lparr>retryCount := (retryCount s3)(key \<mapsto> 3)\<rparr>)"
    using retry_again [of operation _ e3 s3 key] assms(7,8,9) by (simp add: MAX_RETRIES_def numeral_2_eq_2 numeral_3_eq_3)
  also have "\<dots> = Some (Inl e4, s4\<lparr>retryCount := (retryCount s4)(key := None)\<rparr>)"
    using retry_exhausted [of operation _ e4 s4 key] assms(10,11) by (simp add: MAX_RETRIES_def numeral_2_eq_2 numeral_3_eq_3)
  finally show ?thesis .
qed

section \<open>The storage engine and the statements\<close>

lemma access_frame [simp]:
  "rows (snd (access s)) = rows s"
  "retryCount (snd (access s)) = retryCount s"
  "now (snd (access s)) = now s"
  by (simp_all add: access_def split: list.splits)

lemma run_frame:
  assumes "run stmt s = (r, s1)"
  shows "retryCount s1 = retryCount s" and "now s1 = now s"
    and "case r of Inl err \<Rightarrow> rows s1 = rows s | Inr v \<Rightarrow> v = fst (stmt (rows s)) \<and> rows s1 = snd (stmt (rows s))"
  using assms
  by (auto simp: run_def access_def split: list.splits option.splits prod.splits)

lemma run_runs:
  "fst (access s) = None \<Longrightarrow>
   run stmt s = (Inr (fst (stmt (rows s))), (snd (access s))\<lparr>rows := snd (stmt (rows s))\<rparr>)"
  using access_frame(1) [of s] by (cases "access s") (auto simp: run_def split: prod.splits)

lemma messageExists_spec:
  "\<exists>r s'. messageExists messageId s = Some (r, s') \<and> frame (''messageExists_'' @ toString messageId) s s' \<and>
     (\<forall>b. r = Inr b \<longrightarrow> validateMessageId messageId = Inr () \<and> b = (select_by_message_id messageId (rows s) \<noteq> None))"
proof -
  let ?key = "''messageExists_'' @ toString messageId"
  have "\<exists>r s'. messageExists messageId s = Some (r, s') \<and>
     (case r of Inl e \<Rightarrow> frame ?key s s' \<and> True
      | Inr b \<Rightarrow> frame ?key s s' \<and> validateMessageId messageId = Inr () \<and> b = (select_by_message_id messageId (rows s) \<noteq> None))"
    unfolding messageExists_def
  proof (rule retry_rule [where I = "frame ?key s"])
    show "frame ?key s s" by (simp add: frame_def)
  next
    fix t c assume "frame ?key s t"
    then show "frame ?key s (t\<lparr>retryCount := (retryCount t)(?key := c)\<rparr>)"
      by (simp add: frame_def)
  next
    fix t assume I: "frame ?key s t"
    obtain r t1 where R: "run (\<lambda>tbl. (select_by_message_id messageId tbl, tbl)) t = (r, t1)"
      by (cases "run (\<lambda>tbl. (select_by_message_id messageId tbl, tbl)) t")
    from run_frame [OF R] I
    show "\<exists>r s1. check (validateMessageId messageId)
            (\<lambda>s. case run (\<lambda>tbl. (select_by_message_id messageId tbl, tbl)) s of
                  (Inl err, s1) \<Rightarrow> Some (Inl err, s1)
                | (Inr found, s1) \<Rightarrow> Some (Inr (found \<noteq> None), s1)) t = Some (r, s1) \<and>
          retryCount s1 ?key = retryCount t ?key \<and>
          (case r of Inl e \<Rightarrow> frame ?key s s1 \<and> True
           | Inr b \<Rightarrow> frame ?key s s1 \<and> validateMessageId messageId = Inr () \<and> b = (select_by_message_id messageId (rows s) \<noteq> None))"
      using R by (cases "validateMessageId messageId"; cases r) (auto simp: check_def frame_def)
  qed
  then obtain r s' where res: "messageExists messageId s = Some (r, s')"
    and post: "case r of Inl e \<Rightarrow> frame ?key s s' \<and> True
      | Inr b \<Rightarrow> frame ?key s s' \<and> validateMessageId messageId = Inr () \<and> b = (select_by_message_id messageId (rows s) \<noteq> None)"
    by blast
  from post have "frame ?key s s'" by (cases r) simp_all
  with res post show ?thesis by (cases r) simp_all
qed

lemma insert_key_neq [simp]: "''insertMessage_'' @ x \<noteq> ''messageExists_'' @ y"
  by simp

lemma insertMessage_spec:
  "\<exists>r s'. insertMessage messageId c ca ua s = Some (r, s') \<and>
     (case r of
        Inl e \<Rightarrow> rows s' = rows s \<and> now s' = now s
      | Inr v \<Rightarrow> now s' = now s \<and> rows s' = snd (insert_row messageId c ca ua (rows s)) \<and>
                 select_by_message_id messageId (rows s) = None \<and>
                 validateMessageId messageId = Inr () \<and> validateContent c = Inr () \<and>
                 validateTimestamps ca ua = Inr ())"
proof -
  let ?I = "\<lambda>t. rows t = rows s \<and> now t = now s"
  let ?Q = "\<lambda>(v::unit) t. now t = now s \<and> rows t = snd (insert_row messageId c ca ua (rows s)) \<and>
                 select_by_message_id messageId (rows s) = None \<and>
                 validateMessageId messageId = Inr () \<and> validateContent c = Inr () \<and>
                 validateTimestamps ca ua = Inr ()"
  have "\<exists>r s'. insertMessage messageId c ca ua s = Some (r, s') \<and>
          (case r of Inl e \<Rightarrow> ?I s' \<and> True | Inr v \<Rightarrow> ?Q v s')"
    unfolding insertMessage_def
    apply (rule retry_rule [where I = ?I and E = "\<lambda>_. True" and Q = ?Q])
    subgoal for t
    proof -
      assume I: "rows t = rows s \<and> now t = now s"
      obtain r1 t1 where ex: "messageExists messageId t = Some (r1, t1)"
        and fr: "frame (''messageExists_'' @ toString messageId) t t1"
        and val: "\<forall>b. r1 = Inr b \<longrightarrow> validateMessageId messageId = Inr () \<and>
                    b = (select_by_message_id messageId (rows t) \<noteq> None)"
        using messageExists_spec [of messageId t] by blast
      obtain r2 t2 where R: "run (insert_row messageId c ca ua) t1 = (r2, t2)"
        by (cases "run (insert_row messageId c ca ua) t1")
      from fr have k: "retryCount t1 (''insertMessage_'' @ toString messageId) =
                       retryCount t (''insertMessage_'' @ toString messageId)"
        by (simp add: frame_def)
      show ?thesis
        using I ex fr val k R run_frame [OF R]
        by (cases "validateMessageId messageId"; cases "validateContent c";
            cases "validateTimestamps ca ua"; cases r1; cases r2)
           (auto simp: check_def frame_def)
    qed
    subgoal by simp
    subgoal by simp
    done
  then show ?thesis by (simp cong: sum.case_cong)
qed

lemma select_None_iff:
  "select_by_message_id messageId tbl = None \<longleftrightarrow> (\<forall>r \<in> set tbl. message_id r \<noteq> messageId)"
  by (auto simp: select_by_message_id_def find_None_iff)

lemma update_changes:
  "fst (update_by_message_id c n messageId tbl) = 0 \<longleftrightarrow> select_by_message_id messageId tbl = None"
  by (auto simp: update_by_message_id_def select_None_iff filter_empty_conv)

lemma update_absent:
  "select_by_message_id messageId tbl = None \<Longrightarrow> snd (update_by_message_id c n messageId tbl) = tbl"
  by (simp add: update_by_message_id_def select_None_iff map_idI)

lemma delete_changes:
  "fst (delete_by_message_id messageId tbl) = 0 \<longleftrightarrow> select_by_message_id messageId tbl = None"
  by (auto simp: delete_by_message_id_def select_None_iff filter_empty_conv)

lemma delete_absent:
  "select_by_message_id messageId tbl = None \<Longrightarrow> snd (delete_by_message_id messageId tbl) = tbl"
  by (simp add: delete_by_message_id_def select_None_iff)

lemma updateMessage_spec:
  "\<exists>r s'. updateMessage messageId c s = Some (r, s') \<and>
     (case r of
        Inl e \<Rightarrow> rows s' = rows s \<and> now s' = now s
      | Inr v \<Rightarrow> now s' = now s \<and>
                 rows s' = snd (update_by_message_id c (Integer (now s)) messageId (rows s)) \<and>
                 select_by_message_id messageId (rows s) \<noteq> None \<and>
                 validateMessageId messageId = Inr () \<and> validateContent c = Inr ())"
proof -
  let ?I = "\<lambda>t. rows t = rows s \<and> now t = now s"
  let ?Q = "\<lambda>(v::unit) t. now t = now s \<and>
                 rows t = snd (update_by_message_id c (Integer (now s)) messageId (rows s)) \<and>
                 select_by_message_id messageId (rows s) \<noteq> None \<and>
                 validateMessageId messageId = Inr () \<and> validateContent c = Inr ()"
  have "\<exists>r s'. updateMessage messageId c s = Some (r, s') \<and>
          (case r of Inl e \<Rightarrow> ?I s' \<and> True | Inr v \<Rightarrow> ?Q v s')"
    unfolding updateMessage_def
    apply (rule retry_rule [where I = ?I and E = "\<lambda>_. True" and Q = ?Q])
    subgoal for t
    proof -
      assume I: "rows t = rows s \<and> now t = now s"
      obtain r2 t2 where R: "run (update_by_message_id c (Integer (now s)) messageId) t = (r2, t2)"
        by (cases "run (update_by_message_id c (Integer (now s)) messageId) t")
      show ?thesis
        using I R run_frame [OF R]
          update_changes [of c "Integer (now s)" messageId "rows s"]
          update_absent [of messageId "rows s" c "Integer (now s)"]
        by (cases "validateMessageId messageId"; cases "validateContent c"; cases r2)
           (auto simp: check_def)
    qed
    subgoal by simp
    subgoal by simp
    done
  then show ?thesis by (simp cong: sum.case_cong)
qed

lemma deleteMessage_spec:
  "\<exists>r s'. deleteMessage messageId s = Some (r, s') \<and>
     (case r of
        Inl e \<Rightarrow> rows s' = rows s \<and> now s' = now s
      | Inr v \<Rightarrow> now s' = now s \<and>
                 rows s' = snd (delete_by_message_id messageId (rows s)) \<and>
                 select_by_message_id messageId (rows s) \<noteq> None \<and>
                 validateMessageId messageId = Inr ())"
proof -
  let ?I = "\<lambda>t. rows t = rows s \<and> now t = now s"
  let ?Q = "\<lambda>(v::unit) t. now t = now s \<and>
                 rows t = snd (delete_by_message_id messageId (rows s)) \<and>
                 select_by_message_id messageId (rows s) \<noteq> None \<and>
                 validateMessageId messageId = Inr ()"
  have "\<exists>r s'. deleteMessage messageId s = Some (r, s') \<and>
          (case r of Inl e \<Rightarrow> ?I s' \<and> True | Inr v \<Rightarrow> ?Q v s')"
    unfolding deleteMessage_def
    apply (rule retry_rule [where I = ?I and E = "\<lambda>_. True" and Q = ?Q])
    subgoal for t
    proof -
      assume I: "rows t = rows s \<and> now t = now s"
      obtain r2 t2 where R: "run (delete_by_message_id messageId) t = (r2, t2)"
        by (cases "run (delete_by_message_id messageId) t")
      show ?thesis
        using I R run_frame [OF R]
          delete_changes [of messageId "rows s"] delete_absent [of messageId "rows s"]
        by (cases "validateMessageId messageId"; cases r2) (auto simp: check_def)
    qed
    subgoal by simp
    subgoal by simp
    done
  then show ?thesis by (simp cong: sum.case_cong)
qed

lemma getMessage_spec:
  "\<exists>r s'. getMessage messageId s = Some (r, s') \<and>
     (case r of
        Inl e \<Rightarrow> rows s' = rows s \<and> now s' = now s
      | Inr found \<Rightarrow> rows s' = rows s \<and> now s' = now s \<and>
                 found = select_by_message_id messageId (rows s) \<and>
                 validateMessageId messageId = Inr ())"
proof -
  let ?I = "\<lambda>t. rows t = rows s \<and> now t = now s"
  let ?Q = "\<lambda>found t. rows t = rows s \<and> now t = now s \<and>
                 found = select_by_message_id messageId (rows s) \<and>
                 validateMessageId messageId = Inr ()"
  have "\<exists>r s'. getMessage messageId s = Some (r, s') \<and>
          (case r of Inl e \<Rightarrow> ?I s' \<and> True | Inr v \<Rightarrow> ?Q v s')"
    unfolding getMessage_def
    apply (rule retry_rule [where I = ?I and E = "\<lambda>_. True" and Q = ?Q])
    subgoal for t
    proof -
      assume I: "rows t = rows s \<and> now t = now s"
      obtain r2 t2 where R: "run (\<lambda>tbl. (select_by_message_id messageId tbl, tbl)) t = (r2, t2)"
        by (cases "run (\<lambda>tbl. (select_by_message_id messageId tbl, tbl)) t")
      show ?thesis
        using I R run_frame [OF R]
        by (cases "validateMessageId messageId"; cases r2) (auto simp: check_def)
    qed
    subgoal by simp
    subgoal by simp
    done
  then show ?thesis by (simp cong: sum.case_cong)
qed

section \<open>Which errors are retried\<close>

lemma digits_set: "set (digits n) \<subseteq> set ''0123456789''"
proof (induction n rule: digits.induct)
  case (1 n)
  have d: "\<And>k. k < 10 \<Longrightarrow> ''0123456789'' ! k \<in> set ''0123456789''"
    by (rule nth_mem) simp
  show ?case
  proof (cases "n < 10")
    case True
    then show ?thesis using d [of n] by (subst digits.simps) simp
  next
    case False
    then show ?thesis using 1 d [of "n mod 10"] by (subst digits.simps) simp
  qed
qed

lemma not_digit: "c \<notin> set ''0123456789'' \<Longrightarrow> c \<notin> set (digits n)"
  using digits_set by blast

lemma includes_str_skip:
  "c \<notin> set ds \<Longrightarrow> includes_str (ds @ rest) (c # p) = includes_str rest (c # p)"
  by (induction ds) simp_all

lemma fatal_invalid_id: "validateMessageId messageId = Inl err \<Longrightarrow> \<not> isRetryableError err"
  by (cases messageId) (auto simp: isRetryableError_def split: if_splits)

lemma fatal_invalid_timestamps: "validateTimestamps ca ua = Inl err \<Longrightarrow> \<not> isRetryableError err"
  by (auto simp: validateTimestamps_def isRetryableError_def split: if_splits)

lemma digits_MAX_CONTENT_LENGTH: "digits MAX_CONTENT_LENGTH = ''1000000''"
  by (simp add: MAX_CONTENT_LENGTH_def digits.simps)

lemma fatal_invalid_content: "validateContent c = Inl err \<Longrightarrow> \<not> isRetryableError err"
  by (auto simp: validateContent_def digits_MAX_CONTENT_LENGTH isRetryableError_def Let_def split: if_splits)

lemma toString_valid:
  "validateMessageId messageId = Inr () \<Longrightarrow> \<exists>n. toString messageId = digits n"
  by (cases messageId) (auto split: if_splits)

lemma fatal_already_exists:
  "validateMessageId messageId = Inr () \<Longrightarrow>
   \<not> isRetryableError (Error (''Message with ID '' @ toString messageId @ '' already exists''))"
proof -
  assume "validateMessageId messageId = Inr ()"
  then obtain n where "toString messageId = digits n" using toString_valid by blast
  then show ?thesis
    by (simp add: isRetryableError_def includes_str_skip not_digit)
qed

lemma fatal_id_not_found:
  "validateMessageId messageId = Inr () \<Longrightarrow>
   \<not> isRetryableError (Error (''Message with ID '' @ toString messageId @ '' not found''))"
proof -
  assume "validateMessageId messageId = Inr ()"
  then obtain n where "toString messageId = digits n" using toString_valid by blast
  then show ?thesis
    by (simp add: isRetryableError_def includes_str_skip not_digit)
qed

lemma fatal_not_found: "\<not> isRetryableError (Error ''Message not found'')"
  by (simp add: isRetryableError_def)

section \<open>The operations when the engine runs\<close>

lemma run_query:
  "fst (access s) = None \<Longrightarrow>
   run (\<lambda>tbl. (q tbl, tbl)) s = (Inr (q (rows s)), snd (access s))"
  by (auto simp: run_def access_def split: list.splits option.splits)

lemma messageExists_runs:
  "validateMessageId messageId = Inr () \<Longrightarrow> fst (access s) = None \<Longrightarrow>
   messageExists messageId s =
     Some (Inr (select_by_message_id messageId (rows s) \<noteq> None), snd (access s))"
  unfolding messageExists_def
  by (rule retry_success) (simp add: check_def run_query)

lemma getMessage_runs:
  "validateMessageId messageId = Inr () \<Longrightarrow> fst (access s) = None \<Longrightarrow>
   getMessage messageId s = Some (Inr (select_by_message_id messageId (rows s)), snd (access s))"
  unfolding getMessage_def
  by (rule retry_success) (simp add: check_def run_query)

lemma insertMessage_duplicate:
  assumes "validateMessageId messageId = Inr ()" "validateContent c = Inr ()"
    "validateTimestamps ca ua = Inr ()" "fst (access s) = None"
    "select_by_message_id messageId (rows s) \<noteq> None"
  shows "insertMessage messageId c ca ua s =
     Some (Inl (Error (''Message with ID '' @ toString messageId @ '' already exists'')),
           (snd (access s))\<lparr>retryCount := (retryCount s)(''insertMessage_'' @ toString messageId := None)\<rparr>)"
proof -
  have "insertMessage messageId c ca ua s =
     Some (Inl (Error (''Message with ID '' @ toString messageId @ '' already exists'')),
           (snd (access s))\<lparr>retryCount := (retryCount (snd (access s)))(''insertMessage_'' @ toString messageId := None)\<rparr>)"
    unfolding insertMessage_def
    apply (rule retry_fatal)
     apply (use assms in \<open>simp add: check_def messageExists_runs\<close>)
    apply (rule fatal_already_exists [OF assms(1)])
    done
  then show ?thesis by simp
qed

lemma updateMessage_not_found:
  assumes "validateMessageId messageId = Inr ()" "validateContent c = Inr ()"
    "fst (access s) = None" "select_by_message_id messageId (rows s) = None"
  shows "updateMessage messageId c s =
     Some (Inl (Error (''Message with ID '' @ toString messageId @ '' not found'')),
           (snd (access s))\<lparr>retryCount := (retryCount s)(''updateMessage_'' @ toString messageId := None)\<rparr>)"
proof -
  let ?t = "(snd (access s))\<lparr>rows := snd (update_by_message_id c (Integer (now s)) messageId (rows s))\<rparr>"
  have "updateMessage messageId c s =
     Some (Inl (Error (''Message with ID '' @ toString messageId @ '' not found'')),
           ?t\<lparr>retryCount := (retryCount ?t)(''updateMessage_'' @ toString messageId := None)\<rparr>)"
    unfolding updateMessage_def
    apply (rule retry_fatal)
     apply (use assms in \<open>simp add: check_def run_runs update_changes\<close>)
    apply (rule fatal_id_not_found [OF assms(1)])
    done
  moreover have "?t = snd (access s)"
    using assms(4) access_frame(1) [of s] by (simp add: update_absent)
  ultimately show ?thesis by simp
qed

lemma deleteMessage_not_found:
  assumes "validateMessageId messageId = Inr ()"
    "fst (access s) = None" "select_by_message_id messageId (rows s) = None"
  shows "deleteMessage messageId s =
     Some (Inl (Error ''Message not found''),
           (snd (access s))\<lparr>retryCount := (retryCount s)(''deleteMessage_'' @ toString messageId := None)\<rparr>)"
proof -
  let ?t = "(snd (access s))\<lparr>rows := snd (delete_by_message_id messageId (rows s))\<rparr>"
  have "deleteMessage messageId s =
     Some (Inl (Error ''Message not found''),
           ?t\<lparr>retryCount := (retryCount ?t)(''deleteMessage_'' @ toString messageId := None)\<rparr>)"
    unfolding deleteMessage_def
    by (rule retry_fatal)
       (use assms in \<open>simp_all add: check_def run_runs delete_changes fatal_not_found\<close>)
  moreover have "?t = snd (access s)"
    using assms(3) access_frame(1) [of s] by (simp add: delete_absent)
  ultimately show ?thesis by simp
qed

lemma find_snoc:
  "find P xs = None \<Longrightarrow> find P (xs @ [x]) = (if P x then Some x else None)"
  by (induction xs) (auto split: if_splits)

lemma select_inserted:
  "select_by_message_id messageId tbl = None \<Longrightarrow>
   select_by_message_id messageId (snd (insert_row messageId c ca ua tbl)) =
     Some \<lparr>rowid = next_rowid tbl, message_id = messageId, content = toWellFormed c,
           created_at = ca, updated_at = ua\<rparr>"
  by (simp add: select_by_message_id_def insert_row_def find_snoc)


section \<open>Content\<close>

lemma validateContent_empty:
  "trim c = [] \<Longrightarrow> validateContent c = Inl (Error ''Content cannot be empty'')"
  by (simp add: validateContent_def)

lemma validateContent_oversized:
  "trim c \<noteq> [] \<Longrightarrow> byteLength c > 1000000 \<Longrightarrow>
   validateContent c = Inl (Error ''Content exceeds maximum length limit of 1000000 bytes'')"
  by (simp add: validateContent_def digits_MAX_CONTENT_LENGTH [unfolded MAX_CONTENT_LENGTH_def]
        MAX_CONTENT_LENGTH_def)


lemma toWellFormed_id: "isWellFormed c \<Longrightarrow> toWellFormed c = c"
  by (induction c rule: toWellFormed.induct) (auto split: if_splits)

lemma isWellFormed_utf16_hello: "isWellFormed (utf16 ''hello'')"
  by (simp add: utf16_def isHighSurrogate_def isLowSurrogate_def)

lemma byteLength_Cons:
  "\<not> isHighSurrogate u \<Longrightarrow> byteLength (u # us) = unitLength u + byteLength us"
  by (cases us) simp_all

lemma byteLength_replicate:
  "\<not> isHighSurrogate u \<Longrightarrow> byteLength (replicate n u) = n * unitLength u"
  by (induction n) (simp_all add: byteLength_Cons)

lemma trim_replicate:
  "\<not> isWhiteSpace u \<Longrightarrow> trim (replicate n u) = replicate n u"
  by (cases n) (simp_all add: trim_def replicate_append_same [symmetric] del: replicate.simps)

section \<open>What the mutating operations do to the table\<close>

lemma updateMessage_effect:
  assumes "updateMessage messageId c s = Some (Inr (), s')"
  shows "rows s' = map (\<lambda>r. if message_id r = messageId
                              then r\<lparr>content := toWellFormed c, updated_at := Integer (now s)\<rparr>
                              else r) (rows s)"
    and "now s' = now s"
  using updateMessage_spec [of messageId c s] assms
  by (auto simp: update_by_message_id_def)

lemma insertMessage_keeps_timestamps_valid:
  assumes "insertMessage messageId c ca ua s = Some (r, s')" "timestamps_valid (rows s)"
  shows "timestamps_valid (rows s')"
  using insertMessage_spec [of messageId c ca ua s] assms
  by (cases r) (auto simp: timestamps_valid_def insert_row_def)

lemma deleteMessage_keeps_timestamps_valid:
  assumes "deleteMessage messageId s = Some (r, s')" "timestamps_valid (rows s)"
  shows "timestamps_valid (rows s')"
  using deleteMessage_spec [of messageId s] assms
  by (cases r) (auto simp: timestamps_valid_def delete_by_message_id_def list_all_iff)

lemma updateMessage_keeps_timestamps_valid:
  assumes "updateMessage messageId c s = Some (r, s')" "timestamps_valid (rows s)"
    and "\<forall>x \<in> set (rows s). message_id x = messageId \<longrightarrow> \<not> number_less (Integer (now s)) (created_at x)"
  shows "timestamps_valid (rows s')"
proof (cases r)
  case (Inl e)
  with updateMessage_spec [of messageId c s] assms show ?thesis by auto
next
  case (Inr v)
  with updateMessage_spec [of messageId c s] assms(1)
  have tbl: "rows s' = snd (update_by_message_id c (Integer (now s)) messageId (rows s))"
    by auto
  have "validateTimestamps (created_at x) (Integer (now s)) = Inr ()"
    if "x \<in> set (rows s)" "message_id x = messageId" for x
  proof -
    from that assms(2) have v: "validateTimestamps (created_at x) (updated_at x) = Inr ()"
      by (simp add: timestamps_valid_def list_all_iff)
    from that assms(3) have le: "\<not> number_less (Integer (now s)) (created_at x)" by blast
    from v le show ?thesis
      by (cases "created_at x") (auto simp: validateTimestamps_def split: if_splits)
  qed
  with assms(2) show ?thesis
    by (auto simp: tbl timestamps_valid_def update_by_message_id_def list_all_iff)
qed

section \<open>Evaluation on concrete states\<close>

lemmas evaluate =
  retry.simps check_def run_def access_def isRetryableError_def
  MAX_RETRIES_def MAX_SAFE_INTEGER_def MAX_CONTENT_LENGTH_def digits.simps
  select_by_message_id_def delete_by_message_id_def insert_row_def update_by_message_id_def
  next_rowid_def validateTimestamps_def validateContent_def trim_def isWhiteSpace_def
  unitLength_def isHighSurrogate_def isLowSurrogate_def utf16_def

section \<open>The retry state\<close>

text \<open>
  Claim C1: every invocation of the retry wrapper that returns successfully, also after
  retryable failures, removes the attempt counter of its key from the retry-state map.

  The code does not: \<open>getMessage(5)\<close> on a fresh manager, with the engine throwing
  ``database is locked'' once and then running, returns \<open>null\<close> for the absent row and
  leaves \<open>retryCount\<close> with the entry \<open>getMessage_5 \<mapsto> 1\<close>. Only the \<open>catch\<close> block
  of \<open>retry\<close> deletes the entry, on the final failure.
\<close>

theorem retry_success_keeps_counter:
  "\<exists>s'. getMessage (Integer 5)
          \<lparr>rows = [], retryCount = Map.empty, faults = [Some ''database is locked''], now = 1000\<rparr>
        = Some (Inr None, s') \<and> retryCount s' ''getMessage_5'' = Some 1"
  by (simp add: getMessage_def evaluate)

text \<open>
  Claim C4: an error whose message does not indicate lock contention, busy state or
  unresponsiveness is not retried: \<open>retry\<close> rethrows it to its caller after the attempt
  that raised it, be it the first attempt of the call or an attempt that follows retried
  failures, and clears the counter of the key. The errors of the three validators, the
  duplicate error of \<open>insertMessage\<close> and the not-found errors of \<open>updateMessage\<close> and
  \<open>deleteMessage\<close> are of that kind.
\<close>

theorem fatal_error_not_retried:
  "(retried n operation key s = Some s' \<and> operation s' = Some (Inl err, s1) \<and>
    \<not> isRetryableError err \<longrightarrow>
      retry operation key s = Some (Inl err, s1\<lparr>retryCount := (retryCount s1)(key := None)\<rparr>)) \<and>
   (validateMessageId messageId = Inl e1 \<longrightarrow> \<not> isRetryableError e1) \<and>
   (validateContent c = Inl e2 \<longrightarrow> \<not> isRetryableError e2) \<and>
   (validateTimestamps ca ua = Inl e3 \<longrightarrow> \<not> isRetryableError e3) \<and>
   (validateMessageId messageId' = Inr () \<longrightarrow>
      \<not> isRetryableError (Error (''Message with ID '' @ toString messageId' @ '' already exists'')) \<and>
      \<not> isRetryableError (Error (''Message with ID '' @ toString messageId' @ '' not found''))) \<and>
   \<not> isRetryableError (Error ''Message not found'')"
proof (intro conjI impI)
  assume a: "retried n operation key s = Some s' \<and> operation s' = Some (Inl err, s1) \<and>
    \<not> isRetryableError err"
  then have "retry operation key s = retry operation key s'"
    using retry_retried [of n operation key s s'] by simp
  also have "\<dots> = Some (Inl err, s1\<lparr>retryCount := (retryCount s1)(key := None)\<rparr>)"
    using a by (simp add: retry_fatal)
  finally show "retry operation key s =
      Some (Inl err, s1\<lparr>retryCount := (retryCount s1)(key := None)\<rparr>)" .
qed (erule fatal_invalid_id fatal_invalid_content fatal_invalid_timestamps
       fatal_already_exists fatal_id_not_found | rule fatal_not_found)+

theorem fatal_error_not_retried_witness:
  "getMessage (Integer 5)
      \<lparr>rows = [], retryCount = Map.empty,
       faults = [Some ''database is locked'', Some ''disk I/O error''], now = 0\<rparr>
    = Some (Inl (Error ''disk I/O error''),
        \<lparr>rows = [], retryCount = Map.empty, faults = [], now = 0\<rparr>) \<and>
   retry (\<lambda>s. Some (Inl (Error ''Message not found'') :: error + unit, s)) ''deleteMessage_7''
      \<lparr>rows = [], retryCount = [''deleteMessage_7'' \<mapsto> 2], faults = [], now = 0\<rparr>
    = Some (Inl (Error ''Message not found''),
        \<lparr>rows = [], retryCount = Map.empty, faults = [], now = 0\<rparr>) \<and>
   validateMessageId (Integer 0) = Inl (Error ''Invalid message ID: must be a positive integer within safe range'') \<and>
   \<not> isRetryableError (Error ''Invalid message ID: must be a positive integer within safe range'') \<and>
   validateContent [] = Inl (Error ''Content cannot be empty'') \<and>
   \<not> isRetryableError (Error ''Content cannot be empty'') \<and>
   validateTimestamps (Integer 5) (Integer 4) =
     Inl (Error ''updated_at timestamp cannot be earlier than created_at timestamp'') \<and>
   \<not> isRetryableError (Error ''updated_at timestamp cannot be earlier than created_at timestamp'') \<and>
   validateMessageId (Integer 7) = Inr () \<and>
   \<not> isRetryableError (Error ''Message with ID 7 already exists'') \<and>
   \<not> isRetryableError (Error ''Message with ID 7 not found'')"
proof -
  let ?s = "\<lparr>rows = [], retryCount = [''deleteMessage_7'' \<mapsto> 2], faults = [], now = 0\<rparr>"
  let ?op = "\<lambda>s::manager. Some (Inl (Error ''Message not found'') :: error + unit, s)"
  let ?g0 = "\<lparr>rows = [], retryCount = Map.empty,
       faults = [Some ''database is locked'', Some ''disk I/O error''], now = 0\<rparr>"
  let ?g1 = "\<lparr>rows = [], retryCount = [''getMessage_5'' \<mapsto> 1],
       faults = [Some ''disk I/O error''], now = 0\<rparr>"
  let ?g2 = "\<lparr>rows = [], retryCount = [''getMessage_5'' \<mapsto> 1], faults = [], now = 0\<rparr>"
  let ?get = "check (validateMessageId (Integer 5))
          (\<lambda>s. Some (run (\<lambda>tbl. (select_by_message_id (Integer 5) tbl, tbl)) s))"
  have h1: "validateMessageId (Integer 0) = Inl (Error ''Invalid message ID: must be a positive integer within safe range'')"
    by simp
  have h2: "validateContent [] = Inl (Error ''Content cannot be empty'')"
    by (simp add: validateContent_def trim_def)
  have h3: "validateTimestamps (Integer 5) (Integer 4) =
     Inl (Error ''updated_at timestamp cannot be earlier than created_at timestamp'')"
    by (simp add: validateTimestamps_def)
  have h4: "validateMessageId (Integer 7) = Inr ()"
    by (simp add: MAX_SAFE_INTEGER_def)
  have h5: "toString (Integer 7) = ''7''"
    by (simp add: digits.simps)
  have h6: "retried 0 ?op ''deleteMessage_7'' ?s = Some ?s" "?op ?s = Some (Inl (Error ''Message not found''), ?s)"
    by simp_all
  have g1: "retried (Suc 0) ?get ''getMessage_5'' ?g0 = Some ?g1"
    by (simp add: attempts_def check_def run_def access_def isRetryableError_def
          MAX_RETRIES_def MAX_SAFE_INTEGER_def)
  have g2: "?get ?g1 = Some (Inl (Error ''disk I/O error''), ?g2)"
    by (simp add: check_def run_def access_def MAX_SAFE_INTEGER_def)
  have g3: "\<not> isRetryableError (Error ''disk I/O error'')"
    by (simp add: isRetryableError_def)
  have g4: "toString (Integer 5) = ''5''"
    by (simp add: digits.simps)
  note w = fatal_error_not_retried [of 0 ?op "''deleteMessage_7''" ?s ?s
        "Error ''Message not found''" ?s "Integer 0"
        "Error ''Invalid message ID: must be a positive integer within safe range''"
        "[]" "Error ''Content cannot be empty''" "Integer 5" "Integer 4"
        "Error ''updated_at timestamp cannot be earlier than created_at timestamp''" "Integer 7"]
  note v = fatal_error_not_retried [of "Suc 0" ?get "''getMessage_5''" ?g0 ?g1
        "Error ''disk I/O error''" ?g2]
  from v g1 g2 g3 g4
  have get: "getMessage (Integer 5) ?g0 = Some (Inl (Error ''disk I/O error''),
        \<lparr>rows = [], retryCount = Map.empty, faults = [], now = 0\<rparr>)"
    by (simp add: getMessage_def)
  from w h1 h2 h3 h4 h5 h6
  have rest: "retry ?op ''deleteMessage_7'' ?s
    = Some (Inl (Error ''Message not found''),
        \<lparr>rows = [], retryCount = Map.empty, faults = [], now = 0\<rparr>) \<and>
   validateMessageId (Integer 0) = Inl (Error ''Invalid message ID: must be a positive integer within safe range'') \<and>
   \<not> isRetryableError (Error ''Invalid message ID: must be a positive integer within safe range'') \<and>
   validateContent [] = Inl (Error ''Content cannot be empty'') \<and>
   \<not> isRetryableError (Error ''Content cannot be empty'') \<and>
   validateTimestamps (Integer 5) (Integer 4) =
     Inl (Error ''updated_at timestamp cannot be earlier than created_at timestamp'') \<and>
   \<not> isRetryableError (Error ''updated_at timestamp cannot be earlier than created_at timestamp'') \<and>
   validateMessageId (Integer 7) = Inr () \<and>
   \<not> isRetryableError (Error ''Message with ID 7 already exists'') \<and>
   \<not> isRetryableError (Error ''Message with ID 7 not found'')"
    by auto
  from get rest show ?thesis by blast
qed

section \<open>Rejected content\<close>

text \<open>
  Claim C8: content that is empty after trimming, and content whose UTF-8 length exceeds
  1,000,000 bytes, is rejected by \<open>insertMessage\<close> and by \<open>updateMessage\<close> with a
  validation error that names the cause, and nothing is stored: the table, the pending
  engine outcomes and the clock are those of the state before the call (the retry
  wrapper deletes the key of the call from \<open>retryCount\<close>). The identifier is validated
  before the content, so the error names the content when the identifier is valid.
\<close>

theorem invalid_content_rejected:
  assumes "trim c = [] \<or> byteLength c > 1000000"
  shows "\<exists>err.
     insertMessage messageId c ca ua s =
       Some (Inl err, s\<lparr>retryCount := (retryCount s)(''insertMessage_'' @ toString messageId := None)\<rparr>) \<and>
     updateMessage messageId c s =
       Some (Inl err, s\<lparr>retryCount := (retryCount s)(''updateMessage_'' @ toString messageId := None)\<rparr>) \<and>
     (validateMessageId messageId = Inr () \<longrightarrow>
        err = Error (if trim c = [] then ''Content cannot be empty''
                     else ''Content exceeds maximum length limit of 1000000 bytes''))"
proof -
  let ?e = "Error (if trim c = [] then ''Content cannot be empty''
                     else ''Content exceeds maximum length limit of 1000000 bytes'')"
  let ?err = "case validateMessageId messageId of Inl e \<Rightarrow> e | Inr _ \<Rightarrow> ?e"
  have vc: "validateContent c = Inl ?e"
    using assms validateContent_empty validateContent_oversized by (cases "trim c = []") auto
  have fatal: "\<not> isRetryableError ?err"
    using fatal_invalid_id [of messageId] fatal_invalid_content [OF vc]
    by (cases "validateMessageId messageId") auto
  have body: "\<And>rest :: unit operation.
      check (validateMessageId messageId) (check (validateContent c) rest) s = Some (Inl ?err, s)"
    using vc by (cases "validateMessageId messageId") (auto simp: check_def)
  have "insertMessage messageId c ca ua s =
       Some (Inl ?err, s\<lparr>retryCount := (retryCount s)(''insertMessage_'' @ toString messageId := None)\<rparr>)"
    unfolding insertMessage_def using body fatal by (rule retry_fatal)
  moreover have "updateMessage messageId c s =
       Some (Inl ?err, s\<lparr>retryCount := (retryCount s)(''updateMessage_'' @ toString messageId := None)\<rparr>)"
    unfolding updateMessage_def using body fatal by (rule retry_fatal)
  moreover have "validateMessageId messageId = Inr () \<longrightarrow> ?err = ?e"
    by simp
  ultimately show ?thesis by blast
qed

theorem invalid_content_rejected_witness:
  "trim (utf16 ''   '') = [] \<and>
   insertMessage (Integer 7) (utf16 ''   '') (Integer 5) (Integer 5)
       \<lparr>rows = [], retryCount = Map.empty, faults = [], now = 1000\<rparr> =
     Some (Inl (Error ''Content cannot be empty''),
           \<lparr>rows = [], retryCount = Map.empty, faults = [], now = 1000\<rparr>) \<and>
   updateMessage (Integer 7) (utf16 ''   '')
       \<lparr>rows = [], retryCount = Map.empty, faults = [], now = 1000\<rparr> =
     Some (Inl (Error ''Content cannot be empty''),
           \<lparr>rows = [], retryCount = Map.empty, faults = [], now = 1000\<rparr>) \<and>
   byteLength (replicate 1000001 0x61) > 1000000 \<and>
   insertMessage (Integer 7) (replicate 1000001 0x61) (Integer 5) (Integer 5)
       \<lparr>rows = [], retryCount = Map.empty, faults = [], now = 1000\<rparr> =
     Some (Inl (Error ''Content exceeds maximum length limit of 1000000 bytes''),
           \<lparr>rows = [], retryCount = Map.empty, faults = [], now = 1000\<rparr>) \<and>
   updateMessage (Integer 7) (replicate 1000001 0x61)
       \<lparr>rows = [], retryCount = Map.empty, faults = [], now = 1000\<rparr> =
     Some (Inl (Error ''Content exceeds maximum length limit of 1000000 bytes''),
           \<lparr>rows = [], retryCount = Map.empty, faults = [], now = 1000\<rparr>)"
proof -
  let ?s = "\<lparr>rows = [], retryCount = Map.empty, faults = [], now = 1000\<rparr>"
  have blank: "trim (utf16 ''   '') = []"
    by (simp add: trim_def utf16_def isWhiteSpace_def)
  have big: "byteLength (replicate 1000001 0x61) > 1000000"
    by (simp add: byteLength_replicate isHighSurrogate_def unitLength_def)
  have letters: "trim (replicate 1000001 0x61) \<noteq> []"
    by (simp add: trim_replicate isWhiteSpace_def)
  have valid: "validateMessageId (Integer 7) = Inr ()"
    by (simp add: MAX_SAFE_INTEGER_def)
  from invalid_content_rejected [of "utf16 ''   ''" "Integer 7" "Integer 5" "Integer 5" ?s] blank valid
  have 1: "insertMessage (Integer 7) (utf16 ''   '') (Integer 5) (Integer 5) ?s =
             Some (Inl (Error ''Content cannot be empty''), ?s)"
    and 2: "updateMessage (Integer 7) (utf16 ''   '') ?s =
             Some (Inl (Error ''Content cannot be empty''), ?s)"
    by auto
  from invalid_content_rejected [of "replicate 1000001 0x61" "Integer 7" "Integer 5" "Integer 5" ?s]
    big letters valid
  have 3: "insertMessage (Integer 7) (replicate 1000001 0x61) (Integer 5) (Integer 5) ?s =
             Some (Inl (Error ''Content exceeds maximum length limit of 1000000 bytes''), ?s)"
    and 4: "updateMessage (Integer 7) (replicate 1000001 0x61) ?s =
             Some (Inl (Error ''Content exceeds maximum length limit of 1000000 bytes''), ?s)"
    by auto
  from blank big 1 2 3 4 show ?thesis by blast
qed

section \<open>Conflicts and missing rows\<close>

text \<open>
  Claim C5: when a row with the given \<open>message_id\<close> is stored, \<open>insertMessage\<close> with that
  identifier fails and the table is left as it was, whatever the engine does. With valid
  arguments and an engine that runs the existence query, the failure is the duplicate
  error, raised after \<open>messageExists\<close> has answered and before any insert.
\<close>

theorem duplicate_insert_rejected:
  assumes "select_by_message_id messageId (rows s) \<noteq> None"
  shows "\<exists>err s'. insertMessage messageId c ca ua s = Some (Inl err, s') \<and> rows s' = rows s \<and>
     (validateMessageId messageId = Inr () \<and> validateContent c = Inr () \<and>
      validateTimestamps ca ua = Inr () \<and> fst (access s) = None \<longrightarrow>
        err = Error (''Message with ID '' @ toString messageId @ '' already exists''))"
proof -
  obtain r s' where res: "insertMessage messageId c ca ua s = Some (r, s')"
    and post: "case r of
        Inl e \<Rightarrow> rows s' = rows s \<and> now s' = now s
      | Inr v \<Rightarrow> now s' = now s \<and> rows s' = snd (insert_row messageId c ca ua (rows s)) \<and>
                 select_by_message_id messageId (rows s) = None \<and>
                 validateMessageId messageId = Inr () \<and> validateContent c = Inr () \<and>
                 validateTimestamps ca ua = Inr ()"
    using insertMessage_spec [of messageId c ca ua s] by blast
  from post assms obtain err where r: "r = Inl err" and same: "rows s' = rows s"
    by (cases r) auto
  have "err = Error (''Message with ID '' @ toString messageId @ '' already exists'')"
    if "validateMessageId messageId = Inr () \<and> validateContent c = Inr () \<and>
      validateTimestamps ca ua = Inr () \<and> fst (access s) = None"
    using insertMessage_duplicate [of messageId c ca ua s] that assms res r by simp
  with res r same show ?thesis by blast
qed

theorem duplicate_insert_rejected_witness:
  "select_by_message_id (Integer 7)
     (rows \<lparr>rows = [\<lparr>rowid = 1, message_id = Integer 7, content = utf16 ''first'',
                      created_at = Integer 5, updated_at = Integer 5\<rparr>],
            retryCount = Map.empty, faults = [], now = 1000\<rparr>) \<noteq> None \<and>
   (\<exists>s'. insertMessage (Integer 7) (utf16 ''second'') (Integer 8) (Integer 9)
       \<lparr>rows = [\<lparr>rowid = 1, message_id = Integer 7, content = utf16 ''first'',
                  created_at = Integer 5, updated_at = Integer 5\<rparr>],
        retryCount = Map.empty, faults = [], now = 1000\<rparr> =
      Some (Inl (Error ''Message with ID 7 already exists''), s') \<and>
      rows s' = [\<lparr>rowid = 1, message_id = Integer 7, content = utf16 ''first'',
                  created_at = Integer 5, updated_at = Integer 5\<rparr>])"
proof -
  let ?s = "\<lparr>rows = [\<lparr>rowid = 1, message_id = Integer 7, content = utf16 ''first'',
                  created_at = Integer 5, updated_at = Integer 5\<rparr>],
        retryCount = Map.empty, faults = [], now = 1000\<rparr>"
  have present: "select_by_message_id (Integer 7) (rows ?s) \<noteq> None"
    by (simp add: select_by_message_id_def)
  have valid: "validateMessageId (Integer 7) = Inr ()" "validateContent (utf16 ''second'') = Inr ()"
    "validateTimestamps (Integer 8) (Integer 9) = Inr ()" "fst (access ?s) = None"
    "toString (Integer 7) = ''7''"
    by (simp_all add: evaluate)
  from duplicate_insert_rejected [OF present, of "utf16 ''second''" "Integer 8" "Integer 9"] valid
  have "\<exists>s'. insertMessage (Integer 7) (utf16 ''second'') (Integer 8) (Integer 9) ?s =
      Some (Inl (Error ''Message with ID 7 already exists''), s') \<and> rows s' = rows ?s"
    by auto
  with present show ?thesis by simp
qed

text \<open>
  Claim C6: for an identifier with no stored row, \<open>updateMessage\<close> and \<open>deleteMessage\<close>
  fail and leave the table as it was (no row is created), whatever the engine does. With
  valid arguments and an engine that runs the statement, the failure is the not-found
  error, and it is raised because the statement changed zero rows.
\<close>

theorem missing_row_not_found:
  assumes "select_by_message_id messageId (rows s) = None"
  shows "(\<exists>err s'. updateMessage messageId c s = Some (Inl err, s') \<and> rows s' = rows s \<and>
            (validateMessageId messageId = Inr () \<and> validateContent c = Inr () \<and>
             fst (access s) = None \<longrightarrow>
               err = Error (''Message with ID '' @ toString messageId @ '' not found''))) \<and>
         (\<exists>err s'. deleteMessage messageId s = Some (Inl err, s') \<and> rows s' = rows s \<and>
            (validateMessageId messageId = Inr () \<and> fst (access s) = None \<longrightarrow>
               err = Error ''Message not found'')) \<and>
         fst (update_by_message_id c (Integer (now s)) messageId (rows s)) = 0 \<and>
         fst (delete_by_message_id messageId (rows s)) = 0"
proof (intro conjI)
  obtain r s' where res: "updateMessage messageId c s = Some (r, s')"
    and post: "case r of
        Inl e \<Rightarrow> rows s' = rows s \<and> now s' = now s
      | Inr v \<Rightarrow> now s' = now s \<and>
                 rows s' = snd (update_by_message_id c (Integer (now s)) messageId (rows s)) \<and>
                 select_by_message_id messageId (rows s) \<noteq> None \<and>
                 validateMessageId messageId = Inr () \<and> validateContent c = Inr ()"
    using updateMessage_spec [of messageId c s] by blast
  from post assms obtain err where r: "r = Inl err" and same: "rows s' = rows s"
    by (cases r) auto
  have "err = Error (''Message with ID '' @ toString messageId @ '' not found'')"
    if "validateMessageId messageId = Inr () \<and> validateContent c = Inr () \<and> fst (access s) = None"
    using updateMessage_not_found [of messageId c s] that assms res r by simp
  with res r same
  show "\<exists>err s'. updateMessage messageId c s = Some (Inl err, s') \<and> rows s' = rows s \<and>
            (validateMessageId messageId = Inr () \<and> validateContent c = Inr () \<and>
             fst (access s) = None \<longrightarrow>
               err = Error (''Message with ID '' @ toString messageId @ '' not found''))"
    by blast
next
  obtain r s' where res: "deleteMessage messageId s = Some (r, s')"
    and post: "case r of
        Inl e \<Rightarrow> rows s' = rows s \<and> now s' = now s
      | Inr v \<Rightarrow> now s' = now s \<and>
                 rows s' = snd (delete_by_message_id messageId (rows s)) \<and>
                 select_by_message_id messageId (rows s) \<noteq> None \<and>
                 validateMessageId messageId = Inr ()"
    using deleteMessage_spec [of messageId s] by blast
  from post assms obtain err where r: "r = Inl err" and same: "rows s' = rows s"
    by (cases r) auto
  have "err = Error ''Message not found''"
    if "validateMessageId messageId = Inr () \<and> fst (access s) = None"
    using deleteMessage_not_found [of messageId s] that assms res r by simp
  with res r same
  show "\<exists>err s'. deleteMessage messageId s = Some (Inl err, s') \<and> rows s' = rows s \<and>
            (validateMessageId messageId = Inr () \<and> fst (access s) = None \<longrightarrow>
               err = Error ''Message not found'')"
    by blast
next
  show "fst (update_by_message_id c (Integer (now s)) messageId (rows s)) = 0"
    using assms by (simp add: update_changes)
next
  show "fst (delete_by_message_id messageId (rows s)) = 0"
    using assms by (simp add: delete_changes)
qed

theorem missing_row_not_found_witness:
  "select_by_message_id (Integer 8)
     (rows \<lparr>rows = [\<lparr>rowid = 1, message_id = Integer 7, content = utf16 ''first'',
                      created_at = Integer 5, updated_at = Integer 5\<rparr>],
            retryCount = Map.empty, faults = [], now = 1000\<rparr>) = None \<and>
   (\<exists>s'. updateMessage (Integer 8) (utf16 ''world'')
       \<lparr>rows = [\<lparr>rowid = 1, message_id = Integer 7, content = utf16 ''first'',
                  created_at = Integer 5, updated_at = Integer 5\<rparr>],
        retryCount = Map.empty, faults = [], now = 1000\<rparr> =
      Some (Inl (Error ''Message with ID 8 not found''), s') \<and>
      rows s' = [\<lparr>rowid = 1, message_id = Integer 7, content = utf16 ''first'',
                  created_at = Integer 5, updated_at = Integer 5\<rparr>]) \<and>
   (\<exists>s'. deleteMessage (Integer 8)
       \<lparr>rows = [\<lparr>rowid = 1, message_id = Integer 7, content = utf16 ''first'',
                  created_at = Integer 5, updated_at = Integer 5\<rparr>],
        retryCount = Map.empty, faults = [], now = 1000\<rparr> =
      Some (Inl (Error ''Message not found''), s') \<and>
      rows s' = [\<lparr>rowid = 1, message_id = Integer 7, content = utf16 ''first'',
                  created_at = Integer 5, updated_at = Integer 5\<rparr>])"
proof -
  let ?s = "\<lparr>rows = [\<lparr>rowid = 1, message_id = Integer 7, content = utf16 ''first'',
                  created_at = Integer 5, updated_at = Integer 5\<rparr>],
        retryCount = Map.empty, faults = [], now = 1000\<rparr>"
  have absent: "select_by_message_id (Integer 8) (rows ?s) = None"
    by (simp add: select_by_message_id_def)
  have valid: "validateMessageId (Integer 8) = Inr ()" "validateContent (utf16 ''world'') = Inr ()"
    "fst (access ?s) = None" "toString (Integer 8) = ''8''"
    by (simp_all add: evaluate)
  note w = missing_row_not_found [OF absent, of "utf16 ''world''"]
  from w valid
  have 1: "\<exists>s'. updateMessage (Integer 8) (utf16 ''world'') ?s =
      Some (Inl (Error ''Message with ID 8 not found''), s') \<and> rows s' = rows ?s"
    by auto
  from w valid
  have 2: "\<exists>s'. deleteMessage (Integer 8) ?s =
      Some (Inl (Error ''Message not found''), s') \<and> rows s' = rows ?s"
    by auto
  from absent 1 2 show ?thesis by simp
qed

section \<open>Round trip\<close>

text \<open>
  Claim C7: after \<open>insertMessage(id, "hello", t1, t1)\<close> has succeeded, \<open>getMessage(id)\<close>
  (with the engine running its query) returns a record with \<open>message_id = id\<close>,
  \<open>content = "hello"\<close>, \<open>created_at = t1\<close> and \<open>updated_at = t1\<close>.
\<close>

theorem insert_then_get:
  assumes "insertMessage messageId (utf16 ''hello'') t1 t1 s = Some (Inr (), s1)"
    and "fst (access s1) = None"
  shows "\<exists>r s2. getMessage messageId s1 = Some (Inr (Some r), s2) \<and>
           message_id r = messageId \<and> content r = utf16 ''hello'' \<and>
           created_at r = t1 \<and> updated_at r = t1"
proof -
  from insertMessage_spec [of messageId "utf16 ''hello''" t1 t1 s] assms(1)
  have tbl: "rows s1 = snd (insert_row messageId (utf16 ''hello'') t1 t1 (rows s))"
    and absent: "select_by_message_id messageId (rows s) = None"
    and valid: "validateMessageId messageId = Inr ()"
    by auto
  have "getMessage messageId s1 =
          Some (Inr (select_by_message_id messageId (rows s1)), snd (access s1))"
    using valid assms(2) by (rule getMessage_runs)
  then show ?thesis
    using tbl select_inserted [OF absent, of "utf16 ''hello''" t1 t1]
      toWellFormed_id [OF isWellFormed_utf16_hello]
    by simp
qed

theorem insert_then_get_witness:
  "insertMessage (Integer 7) (utf16 ''hello'') (Integer 1700000000000) (Integer 1700000000000)
      \<lparr>rows = [], retryCount = Map.empty, faults = [], now = 1000\<rparr> =
     Some (Inr (), \<lparr>rows = [\<lparr>rowid = 1, message_id = Integer 7, content = utf16 ''hello'',
                     created_at = Integer 1700000000000, updated_at = Integer 1700000000000\<rparr>],
                    retryCount = Map.empty, faults = [], now = 1000\<rparr>) \<and>
   (\<exists>r s2. getMessage (Integer 7)
        \<lparr>rows = [\<lparr>rowid = 1, message_id = Integer 7, content = utf16 ''hello'',
                     created_at = Integer 1700000000000, updated_at = Integer 1700000000000\<rparr>],
                    retryCount = Map.empty, faults = [], now = 1000\<rparr> = Some (Inr (Some r), s2) \<and>
      message_id r = Integer 7 \<and> content r = utf16 ''hello'' \<and>
      created_at r = Integer 1700000000000 \<and> updated_at r = Integer 1700000000000)"
proof -
  let ?s = "\<lparr>rows = [], retryCount = Map.empty, faults = [], now = 1000\<rparr>"
  let ?s1 = "\<lparr>rows = [\<lparr>rowid = 1, message_id = Integer 7, content = utf16 ''hello'',
                     created_at = Integer 1700000000000, updated_at = Integer 1700000000000\<rparr>],
                    retryCount = Map.empty, faults = [], now = 1000\<rparr>"
  have ins: "insertMessage (Integer 7) (utf16 ''hello'') (Integer 1700000000000) (Integer 1700000000000) ?s
      = Some (Inr (), ?s1)"
    by (simp add: insertMessage_def messageExists_def evaluate)
  have runs: "fst (access ?s1) = None"
    by (simp add: access_def)
  from insert_then_get [OF ins runs] ins show ?thesis by simp
qed

section \<open>Stored content\<close>




section \<open>The retry budget\<close>

text \<open>
  Claim C3: an operation that fails twice with ``database is locked'' and succeeds on the
  third attempt completes successfully for the caller; four consecutive failures
  propagate the last error.

  For a key without counter the code does so (\<open>retry_third_attempt_succeeds\<close>,
  \<open>retry_fourth_failure_propagates\<close>). It does not for a key whose counter a successful
  call has left behind: a first \<open>getMessage(5)\<close> that succeeds on its third attempt
  leaves \<open>getMessage_5 \<mapsto> 2\<close>; the second \<open>getMessage(5)\<close> fails twice with ``database
  is locked'' and is rejected with that error after its second attempt, although the
  engine would have run the third (the next entry of \<open>faults\<close> is \<open>None\<close>).
\<close>

theorem stale_counter_cuts_retry_budget:
  "\<exists>s1 s2.
     getMessage (Integer 5)
       \<lparr>rows = [], retryCount = Map.empty,
        faults = [Some ''database is locked'', Some ''database is locked'', None,
                  Some ''database is locked'', Some ''database is locked'', None],
        now = 1000\<rparr> = Some (Inr None, s1) \<and>
     retryCount s1 ''getMessage_5'' = Some 2 \<and>
     faults s1 = [Some ''database is locked'', Some ''database is locked'', None] \<and>
     getMessage (Integer 5) s1 = Some (Inl (Error ''database is locked''), s2) \<and>
     faults s2 = [None]"
  by (simp add: getMessage_def evaluate)

section \<open>The order of the timestamps\<close>

text \<open>
  Claim C2: \<open>updated_at \<ge> created_at\<close> holds for every stored row after every
  operation; in particular a successful \<open>updateMessage\<close> leaves the row with
  \<open>updated_at \<ge> created_at\<close>, also when the row was inserted with a valid timestamp pair
  whose \<open>created_at\<close> lies in the future.

  \<open>insertMessage\<close> and \<open>deleteMessage\<close> keep the invariant, and \<open>updateMessage\<close> keeps
  it for rows created no later than the clock reads (the three lemmas on
  \<open>timestamps_valid\<close>). But \<open>updateMessage\<close> writes \<open>Date.now()\<close> unchecked: with the
  clock at 1000, a row inserted with the valid pair (2000, 2000) is updated to
  \<open>updated_at = 1000\<close>, earlier than its \<open>created_at\<close>, a pair that \<open>validateTimestamps\<close>
  itself rejects.
\<close>

theorem update_breaks_timestamp_order:
  "\<exists>s1 s2.
     validateTimestamps (Integer 2000) (Integer 2000) = Inr () \<and>
     insertMessage (Integer 1) (utf16 ''hello'') (Integer 2000) (Integer 2000)
       \<lparr>rows = [], retryCount = Map.empty, faults = [], now = 1000\<rparr> = Some (Inr (), s1) \<and>
     timestamps_valid (rows s1) \<and>
     updateMessage (Integer 1) (utf16 ''world'') s1 = Some (Inr (), s2) \<and>
     rows s2 = [\<lparr>rowid = 1, message_id = Integer 1, content = utf16 ''world'',
                 created_at = Integer 2000, updated_at = Integer 1000\<rparr>] \<and>
     \<not> timestamps_valid (rows s2)"
  by (simp add: insertMessage_def messageExists_def updateMessage_def timestamps_valid_def evaluate)

text \<open>
  Claim C9: a successful \<open>updateMessage(id, "world")\<close> on a row with \<open>created_at = t1\<close>
  sets the content to \<open>"world"\<close> and \<open>updated_at\<close> to a value \<open>\<ge> t1\<close>, leaves
  \<open>created_at\<close> at \<open>t1\<close> and changes nothing else.

  The update changes the content and \<open>updated_at\<close> of the rows with that identifier and
  nothing else (\<open>updateMessage_effect\<close>), but the value it writes is the reading of the
  clock, whatever \<open>t1\<close> is: for a stored row with \<open>created_at = 2000\<close> and the clock at 1000
  the row ends with \<open>updated_at = 1000 < t1\<close>.
\<close>

theorem update_sets_earlier_timestamp:
  "\<exists>s'. updateMessage (Integer 7) (utf16 ''world'')
       \<lparr>rows = [\<lparr>rowid = 1, message_id = Integer 7, content = utf16 ''hello'',
                  created_at = Integer 2000, updated_at = Integer 2000\<rparr>],
        retryCount = Map.empty, faults = [], now = 1000\<rparr> = Some (Inr (), s') \<and>
     rows s' = [\<lparr>rowid = 1, message_id = Integer 7, content = utf16 ''world'',
                 created_at = Integer 2000, updated_at = Integer 1000\<rparr>] \<and>
     number_less (Integer 1000) (Integer 2000)"
  by (simp add: updateMessage_def evaluate)

end
